theory Spec2Isabelle
  imports Main "HOL-Library.Sublist" "HOL-Library.Word"
begin

section \<open>Shared vocabulary: errors, paths, the file system, the effect trace\<close>

text \<open>
  The metrics-generator is written in Go and is effectful throughout: it touches the file
  system, starts background tasks and calls into libraries (ring, Kafka client, Prometheus
  storage). The embedding passes the state explicitly. Every call into a collaborator that
  can fail takes its outcome from an environment record (one field per call site), and
  every effect on a collaborator is appended to a trace, so that the order of effects can
  be stated.
\<close>

type_synonym tenant = string
type_synonym path = string

text \<open>
  Go error values. \<open>ErrUnconfigured\<close> and \<open>ErrReadOnly\<close> are the two sentinel variables of
  the generator package, \<open>ErrNoOrgID\<close> is the error of \<open>user.ExtractOrgID\<close>, \<open>Err m\<close> is an
  error produced by a collaborator, \<open>Wrap m e\<close> is \<open>fmt.Errorf(m + ": %w", e)\<close>, and
  \<open>Multi es\<close> is the joined error of \<open>tsdb_errors.NewMulti\<close>. \<open>ErrContext\<close> and
  \<open>ErrTerminated n\<close> are the two causes the retry helper reports.
\<close>

datatype error =
    ErrUnconfigured
  | ErrReadOnly
  | ErrNoOrgID
  | ErrContext
  | ErrTerminated nat
  | Err string
  | Wrap string error
  | Multi "error list"

text \<open>
  \<open>generateTenantRemoteWriteConfigs\<close> is not part of the sources; the remote-write
  configuration it builds is represented by the arguments that vary between calls: the
  tenant, the headers and the native-histogram flag.
\<close>

type_synonym headers = "string \<rightharpoonup> string"

datatype remote_write_config = RemoteWriteConfigs tenant headers bool

datatype event =
    EvLog string string
  | EvRemoveAll path
  | EvMkdirAll path
  | EvNewRemoteStorage tenant
  | EvApplyConfig remote_write_config
  | EvAgentOpen path
  | EvGoWatchOverrides tenant
  | EvCloseCh tenant
  | EvStorageClose tenant
  | EvTracesWALNew path
  | EvNewInstance tenant
  | EvRegister tenant
  | EvInstanceShutdown tenant
  | EvSpanStart
  | EvSpanEnd
  | EvPushSpans tenant string
  | EvNewKVClient
  | EvNewLifecycler
  | EvNewTicker nat
  | EvStartManager
  | EvStopManager
  | EvNewKafkaClient
  | EvPing nat
  | EvSleep nat
  | EvNewAdminClient
  | EvNewPartitionOffsetClient
  | EvReadOnly
  | EvStopKafka
  | EvWgAdd nat
  | EvGo tenant
  | EvShutdownReturned tenant
  | EvWgDone tenant
  | EvWgWaitReturned

text \<open>
  The world outside the generator: the set of existing file-system entries (files and
  directories, by path), the trace of effects, the package-level counter
  \<open>metricStorageRemoteWriteUpdateFailed\<close> (one value per tenant label), and the tenants
  whose temporary metrics registry has been registered with the generator's registerer.
  The file-system entries are those present before a call and the directories the
  modelled code creates; the files that the storage libraries write are not tracked.
\<close>

record world =
  fs :: "path set"
  trace :: "event list"
  update_failed :: "tenant \<Rightarrow> nat"
  merged :: "tenant set"

definition emit :: "event \<Rightarrow> world \<Rightarrow> world" where
  "emit e w = w\<lparr>trace := trace w @ [e]\<rparr>"

text \<open>
  \<open>filepath.Join\<close> of two elements: empty elements are ignored, the others are joined by
  the separator. The arguments are taken to be clean paths (\<open>filepath.Clean\<close> is the
  identity on them).
\<close>

definition Join :: "path \<Rightarrow> path \<Rightarrow> path" where
  "Join a b = (if a = [] then b else if b = [] then a else a @ ''/'' @ b)"

text \<open>\<open>inside p q\<close>: the entry \<open>q\<close> is \<open>p\<close> itself or lies below the directory \<open>p\<close>.\<close>

definition inside :: "path \<Rightarrow> path \<Rightarrow> bool" where
  "inside p q = (q = p \<or> prefix (p @ ''/'') q)"

text \<open>
  \<open>os.RemoveAll\<close> removes the path and everything below it; it "removes everything it can
  but returns the first error it encounters", and does nothing for the empty path. The
  outcome of a call says whether it failed and, when it did, which entries it could not
  remove.
\<close>

datatype remove_outcome = Removed | RemoveFailed error "path set"

fun remove_error :: "remove_outcome \<Rightarrow> error option" where
  "remove_error Removed = None"
| "remove_error (RemoveFailed e _) = Some e"

fun RemoveAll :: "path \<Rightarrow> remove_outcome \<Rightarrow> world \<Rightarrow> world" where
  "RemoveAll p Removed w =
     emit (EvRemoveAll p) (if p = [] then w else w\<lparr>fs := Set.filter (\<lambda>q. \<not> inside p q) (fs w)\<rparr>)"
| "RemoveAll p (RemoveFailed e left) w =
     emit (EvRemoveAll p) (w\<lparr>fs := Set.filter (\<lambda>q. \<not> inside p q \<or> q \<in> left) (fs w)\<rparr>)"

text \<open>
  \<open>os.MkdirAll\<close> creates the directory and every missing parent. \<open>dirs_of p\<close> lists \<open>p\<close>
  and its parents. A failed call is modelled as creating nothing.
\<close>

definition dirs_of :: "path \<Rightarrow> path list" where
  "dirs_of p = filter (\<lambda>q. q \<noteq> [] \<and> inside q p) (prefixes p)"

fun MkdirAll :: "path \<Rightarrow> error option \<Rightarrow> world \<Rightarrow> world" where
  "MkdirAll p None w = emit (EvMkdirAll p) (w\<lparr>fs := fs w \<union> set (dirs_of p)\<rparr>)"
| "MkdirAll p (Some e) w = emit (EvMkdirAll p) w"

section \<open>Per-tenant storage (package storage)\<close>

text \<open>
  The override provider, read at one moment. \<open>HasNativeHistograms\<close> is a function of the
  overrides package that is not part of the sources; it is carried along as a parameter.
\<close>

record overrides =
  MetricsGeneratorRemoteWriteHeaders :: "tenant \<Rightarrow> headers"
  MetricsGeneratorGenerateNativeHistograms :: "tenant \<Rightarrow> string"
  HasNativeHistograms :: "string \<Rightarrow> bool"

text \<open>
  \<open>storageImpl\<close>. Next to the fields of the Go struct the record holds the state of the
  two objects the struct points to that matter here: the configuration that is active in
  the remote storage (\<open>remote_active\<close>: \<open>ApplyConfig\<close> replaces it when it succeeds and
  leaves it alone when it fails) and whether \<open>closeCh\<close> has been closed.
\<close>

record storageImpl =
  walDir :: path
  tenantID :: tenant
  currentHeaders :: headers
  sendNativeHistograms :: bool
  remote_active :: remote_write_config
  closeCh_closed :: bool

record storage_env =
  remove_result :: remove_outcome
  mkdir_result :: "error option"
  apply_result :: "error option"
  open_result :: "error option"

definition storage_New ::
  "path \<Rightarrow> overrides \<Rightarrow> tenant \<Rightarrow> storage_env \<Rightarrow> world \<Rightarrow> (error + storageImpl) \<times> world" where
  "storage_New root ov tn env w0 =
    (let dir = Join root tn;
         w1 = emit (EvLog ''info'' ''clearing old WAL on start up'') w0;
         w2 = RemoveAll dir (remove_result env) w1;
         w3 = (case remove_error (remove_result env) of
                 None \<Rightarrow> w2
               | Some e \<Rightarrow> emit (EvLog ''warn'' ''failed to remove wal on start up'') w2);
         w4 = emit (EvLog ''info'' ''creating WAL'') w3;
         w5 = MkdirAll (Join dir ''wal'') (mkdir_result env) w4
     in case mkdir_result env of
          Some e \<Rightarrow> (Inl (Wrap ''could not create directory for metrics WAL'' e), w5)
        | None \<Rightarrow>
           (let w6 = emit (EvNewRemoteStorage tn) w5;
                hs = MetricsGeneratorRemoteWriteHeaders ov tn;
                generateNativeHistograms = MetricsGeneratorGenerateNativeHistograms ov tn;
                send = HasNativeHistograms ov generateNativeHistograms;
                rc = RemoteWriteConfigs tn hs send;
                w7 = emit (EvApplyConfig rc) w6
            in case apply_result env of
                 Some e \<Rightarrow> (Inl e, w7)
               | None \<Rightarrow>
                  (let w8 = emit (EvAgentOpen dir) w7
                   in case open_result env of
                        Some e \<Rightarrow> (Inl e, w8)
                      | None \<Rightarrow>
                         (Inr \<lparr>walDir = dir, tenantID = tn, currentHeaders = hs,
                               sendNativeHistograms = send, remote_active = rc,
                               closeCh_closed = False\<rparr>,
                          emit (EvGoWatchOverrides tn) w8))))"

text \<open>\<open>tsdb_errors.NewMulti(errs...).Err()\<close>: the non-nil errors, joined; nil when there are none.\<close>

definition NewMulti_Err :: "error option list \<Rightarrow> error option" where
  "NewMulti_Err errs =
     (let es = List.map_filter id errs in if es = [] then None else Some (Multi es))"

record close_env =
  fanout_close_result :: "error option"
  close_remove_result :: remove_outcome

text \<open>
  \<open>storageImpl.Close\<close>: close \<open>closeCh\<close> (the signal on which the poll task returns), close
  the fan-out of WAL and remote storage, remove the WAL directory, and join the two errors.
\<close>

definition Close :: "storageImpl \<Rightarrow> close_env \<Rightarrow> world \<Rightarrow> error option \<times> storageImpl \<times> world" where
  "Close s env w0 =
    (let w1 = emit (EvLog ''info'' ''closing WAL'') w0;
         w2 = emit (EvCloseCh (tenantID s)) w1;
         s' = s\<lparr>closeCh_closed := True\<rparr>;
         w3 = emit (EvStorageClose (tenantID s)) w2;
         w4 = RemoveAll (walDir s) (close_remove_result env) w3
     in (NewMulti_Err [fanout_close_result env, remove_error (close_remove_result env)], s', w4))"

text \<open>
  \<open>headersEqual\<close>. A Go map is a finite partial function; \<open>len\<close> is the number of keys and
  indexing a missing key gives the zero value, the empty string.
\<close>

definition index :: "headers \<Rightarrow> string \<Rightarrow> string" where
  "index b k = (case b k of None \<Rightarrow> [] | Some v \<Rightarrow> v)"

definition headersEqual :: "headers \<Rightarrow> headers \<Rightarrow> bool" where
  "headersEqual a b =
     (if card (dom a) \<noteq> card (dom b) then False
      else (\<forall>k \<in> dom a. index b k = index a k))"

text \<open>
  One firing of the ticker case of \<open>watchOverrides\<close>. \<open>ov\<close> is what the override provider
  answers at that moment and \<open>r\<close> is the outcome of \<open>ApplyConfig\<close>, should it be called.
\<close>

definition watch_tick :: "overrides \<Rightarrow> error option \<Rightarrow> storageImpl \<times> world \<Rightarrow> storageImpl \<times> world" where
  "watch_tick ov r sw =
    (let s = fst sw; w = snd sw;
         newHeaders = MetricsGeneratorRemoteWriteHeaders ov (tenantID s);
         newGenerateNativeHistograms = MetricsGeneratorGenerateNativeHistograms ov (tenantID s);
         newSendNativeHistograms = HasNativeHistograms ov newGenerateNativeHistograms
     in if \<not> headersEqual (currentHeaders s) newHeaders
           \<or> sendNativeHistograms s \<noteq> newSendNativeHistograms
        then
          (let w1 = emit (EvLog ''info'' ''updating remote write configuration'') w;
               s1 = s\<lparr>currentHeaders := newHeaders, sendNativeHistograms := newSendNativeHistograms\<rparr>;
               rc = RemoteWriteConfigs (tenantID s) newHeaders newSendNativeHistograms;
               w2 = emit (EvApplyConfig rc) w1
           in case r of
                None \<Rightarrow> (s1\<lparr>remote_active := rc\<rparr>, w2)
              | Some e \<Rightarrow>
                 (s1, emit (EvLog ''info'' ''Failed to update remote write configuration. Remote write will continue with configuration'')
                        (w2\<lparr>update_failed := (update_failed w2)(tenantID s := Suc (update_failed w2 (tenantID s)))\<rparr>)))
        else (s, w))"

text \<open>
  The loop of \<open>watchOverrides\<close> over the sequence of cases its \<open>select\<close> takes: the ticker
  fires (every 30 seconds) or \<open>closeCh\<close> is observed closed. The result says whether the
  task has returned; while the sequence holds no close the task is still waiting.
\<close>

datatype select_case = Tick overrides "error option" | Closed

fun watch_loop :: "select_case list \<Rightarrow> storageImpl \<times> world \<Rightarrow> bool \<times> storageImpl \<times> world" where
  "watch_loop [] sw = (False, sw)"
| "watch_loop (Tick ov r # cs) sw = watch_loop cs (watch_tick ov r sw)"
| "watch_loop (Closed # cs) sw = (True, sw)"

definition watchOverrides :: "select_case list \<Rightarrow> storageImpl \<times> world \<Rightarrow> bool \<times> storageImpl \<times> world" where
  "watchOverrides cs sw = watch_loop cs (fst sw, emit (EvNewTicker 30) (snd sw))"

section \<open>The generator (package generator)\<close>

text \<open>The fields of \<open>Config\<close> the modelled functions read.\<close>

record config =
  Storage_Path :: path
  DisableGRPC :: bool
  Ingest_Enabled :: bool
  TracesWAL_Filepath :: path
  TracesQueryWAL_Filepath :: path

text \<open>
  The tenant instance. Its type and methods (\<open>newInstance\<close>, \<open>pushSpans\<close>, \<open>shutdown\<close>,
  \<open>GetMetrics\<close>, \<open>QueryRange\<close>) are not part of the sources. An instance is represented by
  what \<open>createInstance\<close> hands to \<open>newInstance\<close> and by the requests pushed into it; its
  methods are represented by trace events and by outcomes taken from the environment.
\<close>

record tenantInstance =
  instanceID :: tenant
  wal :: storageImpl
  tracesWAL :: "path option"
  tracesQueryWAL :: "path option"
  pushed :: "string list"

text \<open>
  \<open>Generator\<close>. Pointers to collaborators are represented by whether they are set. The
  registry only ever receives an instance returned by a successful \<open>createInstance\<close>, so a
  registry entry is an instance and a lookup is an option.
\<close>

record generator =
  cfg :: config
  readOnly :: bool
  instances :: "tenant \<rightharpoonup> tenantInstance"
  ringLifecycler :: bool
  subservices :: bool
  kafkaClient :: bool
  kafkaAdm :: bool
  partitionClient :: bool

record new_env =
  validate_result :: "error option"
  mkdir_root_result :: "error option"
  kv_client_result :: "error option"
  lifecycler_cfg_result :: "error option"
  lifecycler_result :: "error option"

definition generator_New :: "config \<Rightarrow> new_env \<Rightarrow> world \<Rightarrow> (error + generator) \<times> world" where
  "generator_New c env w0 =
    (if Storage_Path c = [] then (Inl ErrUnconfigured, w0)
     else case validate_result env of
       Some e \<Rightarrow> (Inl e, w0)
     | None \<Rightarrow>
        (let w1 = MkdirAll (Storage_Path c) (mkdir_root_result env) w0
         in case mkdir_root_result env of
              Some e \<Rightarrow> (Inl (Wrap (''failed to mkdir on '' @ Storage_Path c) e), w1)
            | None \<Rightarrow>
               (let g = \<lparr>cfg = c, readOnly = False, instances = Map.empty,
                         ringLifecycler = False, subservices = False, kafkaClient = False,
                         kafkaAdm = False, partitionClient = False\<rparr>
                in if \<not> DisableGRPC c then
                     (let w2 = emit EvNewKVClient w1
                      in case kv_client_result env of
                           Some e \<Rightarrow> (Inl (Wrap ''create KV store client'' e), w2)
                         | None \<Rightarrow>
                            (case lifecycler_cfg_result env of
                               Some e \<Rightarrow> (Inl (Wrap ''invalid ring lifecycler config'' e), w2)
                             | None \<Rightarrow>
                                (let w3 = emit EvNewLifecycler w2
                                 in case lifecycler_result env of
                                      Some e \<Rightarrow> (Inl (Wrap ''create ring lifecycler'' e), w3)
                                    | None \<Rightarrow> (Inr (g\<lparr>ringLifecycler := True\<rparr>), w3))))
                   else (Inr g, w1))))"

text \<open>\<open>stopIncomingRequests\<close> marks the generator as read-only.\<close>

definition stopIncomingRequests :: "generator \<Rightarrow> generator" where
  "stopIncomingRequests g = g\<lparr>readOnly := True\<rparr>"

text \<open>\<open>user.ExtractOrgID\<close>: the tenant the request context carries, or an error.\<close>

definition ExtractOrgID :: "tenant option \<Rightarrow> error + tenant" where
  "ExtractOrgID c = (case c of None \<Rightarrow> Inl ErrNoOrgID | Some t \<Rightarrow> Inr t)"

definition getInstanceByID :: "generator \<Rightarrow> tenant \<Rightarrow> tenantInstance option" where
  "getInstanceByID g t = instances g t"

text \<open>
  The collaborators of \<open>createInstance\<close> that are not part of the sources, each as a trace
  event and an outcome: \<open>tempodb_wal.New\<close>, \<open>newInstance\<close>, the registerer's \<open>Register\<close>
  (which records the tenant's registry as merged when it succeeds) and
  \<open>instance.shutdown\<close>.
\<close>

definition tempodb_wal_New :: "path \<Rightarrow> error option \<Rightarrow> world \<Rightarrow> (error + path option) \<times> world" where
  "tempodb_wal_New p r w =
     (case r of Some e \<Rightarrow> (Inl e, emit (EvTracesWALNew p) w)
              | None \<Rightarrow> (Inr (Some p), emit (EvTracesWALNew p) w))"

definition newInstance ::
  "tenant \<Rightarrow> storageImpl \<Rightarrow> path option \<Rightarrow> path option \<Rightarrow> error option \<Rightarrow> world
     \<Rightarrow> (error + tenantInstance) \<times> world" where
  "newInstance t s tw tqw r w =
     (case r of
        Some e \<Rightarrow> (Inl e, emit (EvNewInstance t) w)
      | None \<Rightarrow> (Inr \<lparr>instanceID = t, wal = s, tracesWAL = tw, tracesQueryWAL = tqw, pushed = []\<rparr>,
                 emit (EvNewInstance t) w))"

definition Register :: "tenant \<Rightarrow> error option \<Rightarrow> world \<Rightarrow> error option \<times> world" where
  "Register t r w =
     (case r of
        Some e \<Rightarrow> (Some e, emit (EvRegister t) w)
      | None \<Rightarrow> (None, emit (EvRegister t) (w\<lparr>merged := insert t (merged w)\<rparr>)))"

definition shutdown :: "tenantInstance \<Rightarrow> world \<Rightarrow> world" where
  "shutdown inst w = emit (EvInstanceShutdown (instanceID inst)) w"

record create_env =
  overrides_now :: overrides
  wal_env :: storage_env
  traces_wal_result :: "error option"
  traces_query_wal_result :: "error option"
  new_instance_result :: "error option"
  register_result :: "error option"
  wal_close_env :: close_env

text \<open>\<open>_ = wal.Close()\<close>: the storage is closed and the error it returns is dropped.\<close>

definition close_dropping_error :: "storageImpl \<Rightarrow> close_env \<Rightarrow> world \<Rightarrow> world" where
  "close_dropping_error s env w = snd (snd (Close s env w))"

definition createInstance :: "tenant \<Rightarrow> create_env \<Rightarrow> generator \<Rightarrow> world \<Rightarrow> (error + tenantInstance) \<times> world" where
  "createInstance t env g w0 =
    (case storage_New (Storage_Path (cfg g)) (overrides_now env) t (wal_env env) w0 of
       (Inl e, w1) \<Rightarrow> (Inl e, w1)
     | (Inr s, w1) \<Rightarrow>
        (case (if TracesWAL_Filepath (cfg g) \<noteq> []
               then tempodb_wal_New (Join (TracesWAL_Filepath (cfg g)) t) (traces_wal_result env) w1
               else (Inr None, w1)) of
           (Inl e, w2) \<Rightarrow> (Inl e, close_dropping_error s (wal_close_env env) w2)
         | (Inr tw, w2) \<Rightarrow>
            (case (if TracesQueryWAL_Filepath (cfg g) \<noteq> []
                   then tempodb_wal_New (Join (TracesQueryWAL_Filepath (cfg g)) t)
                          (traces_query_wal_result env) w2
                   else (Inr None, w2)) of
               (Inl e, w3) \<Rightarrow> (Inl e, close_dropping_error s (wal_close_env env) w3)
             | (Inr tqw, w3) \<Rightarrow>
                (case newInstance t s tw tqw (new_instance_result env) w3 of
                   (Inl e, w4) \<Rightarrow> (Inl e, close_dropping_error s (wal_close_env env) w4)
                 | (Inr inst, w4) \<Rightarrow>
                    (case Register t (register_result env) w4 of
                       (Some e, w5) \<Rightarrow> (Inl e, shutdown inst w5)
                     | (None, w5) \<Rightarrow> (Inr inst, w5))))))"

definition getOrCreateInstance ::
  "tenant \<Rightarrow> create_env \<Rightarrow> generator \<Rightarrow> world \<Rightarrow> (error + tenantInstance) \<times> generator \<times> world" where
  "getOrCreateInstance t env g w =
    (case getInstanceByID g t of
       Some inst \<Rightarrow> (Inr inst, g, w)
     | None \<Rightarrow>
        (case instances g t of
           Some inst \<Rightarrow> (Inr inst, g, w)
         | None \<Rightarrow>
            (case createInstance t env g w of
               (Inl e, w') \<Rightarrow> (Inl e, g, w')
             | (Inr inst, w') \<Rightarrow> (Inr inst, g\<lparr>instances := (instances g)(t \<mapsto> inst)\<rparr>, w'))))"

text \<open>
  \<open>PushSpans\<close>. The result \<open>Inr ()\<close> is the empty \<open>PushResponse\<close>. \<open>instance.pushSpans\<close> is
  represented by recording the request in the tenant's instance.
\<close>

definition PushSpans ::
  "tenant option \<Rightarrow> string \<Rightarrow> create_env \<Rightarrow> generator \<Rightarrow> world \<Rightarrow> (error + unit) \<times> generator \<times> world" where
  "PushSpans c req env g w0 =
    (if readOnly g then (Inl ErrReadOnly, g, w0)
     else
       (let w1 = emit EvSpanStart w0
        in case ExtractOrgID c of
             Inl e \<Rightarrow> (Inl e, g, emit EvSpanEnd w1)
           | Inr instanceID' \<Rightarrow>
              (case getOrCreateInstance instanceID' env g w1 of
                 (Inl e, g', w2) \<Rightarrow> (Inl e, g', emit EvSpanEnd w2)
               | (Inr inst, g', w2) \<Rightarrow>
                  (Inr (),
                   g'\<lparr>instances := (instances g')(instanceID' \<mapsto> inst\<lparr>pushed := pushed inst @ [req]\<rparr>)\<rparr>,
                   emit EvSpanEnd (emit (EvPushSpans instanceID' req) w2)))))"

text \<open>
  \<open>GetMetrics\<close> and \<open>QueryRange\<close>. A response is the list of its entries, so the empty
  response \<open>&tempopb.SpanMetricsResponse{}\<close> is \<open>[]\<close>. The instance's own method is the
  parameter \<open>q\<close>; it answers and may change the instance.
\<close>

type_synonym 'r instance_query = "tenantInstance \<Rightarrow> string \<Rightarrow> (error + 'r list) \<times> tenantInstance"

definition GetMetrics ::
  "tenant option \<Rightarrow> string \<Rightarrow> 'r instance_query \<Rightarrow> generator \<Rightarrow> (error + 'r list) \<times> generator" where
  "GetMetrics c req q g =
    (case ExtractOrgID c of
       Inl e \<Rightarrow> (Inl e, g)
     | Inr instanceID' \<Rightarrow>
        (case getInstanceByID g instanceID' of
           None \<Rightarrow> (Inr [], g)
         | Some inst \<Rightarrow>
            (let (r, inst') = q inst req
             in (r, g\<lparr>instances := (instances g)(instanceID' \<mapsto> inst')\<rparr>))))"

definition QueryRange ::
  "tenant option \<Rightarrow> string \<Rightarrow> 'r instance_query \<Rightarrow> generator \<Rightarrow> (error + 'r list) \<times> generator" where
  "QueryRange c req q g =
    (case ExtractOrgID c of
       Inl e \<Rightarrow> (Inl e, g)
     | Inr instanceID' \<Rightarrow>
        (case getInstanceByID g instanceID' of
           None \<Rightarrow> (Inr [], g)
         | Some inst \<Rightarrow>
            (let (r, inst') = q inst req
             in (r, g\<lparr>instances := (instances g)(instanceID' \<mapsto> inst')\<rparr>))))"

text \<open>
  What a poll of the override provider yields for a tenant: the headers and the
  native-histogram flag. \<open>same_poll t ov c\<close> says that \<open>c\<close> is a firing of the ticker at
  which the provider answers for \<open>t\<close> as \<open>ov\<close> does.
\<close>

definition polled :: "overrides \<Rightarrow> tenant \<Rightarrow> headers \<times> bool" where
  "polled ov t =
     (MetricsGeneratorRemoteWriteHeaders ov t,
      HasNativeHistograms ov (MetricsGeneratorGenerateNativeHistograms ov t))"

fun same_poll :: "tenant \<Rightarrow> overrides \<Rightarrow> select_case \<Rightarrow> bool" where
  "same_poll t ov (Tick ov' r) = (polled ov' t = polled ov t)"
| "same_poll t ov Closed = False"


definition first_error :: "error option list \<Rightarrow> error option" where
  "first_error rs = (case List.map_filter id rs of [] \<Rightarrow> None | e # _ \<Rightarrow> Some e)"


section \<open>The ring delegate\<close>

text \<open>
  Ring tokens are \<open>uint32\<close>. \<open>OnRingInstanceRegister\<close> reads the tokens of the whole ring
  (\<open>ringDesc.GetTokens()\<close>), whether the instance is already in the ring, and the tokens of
  its descriptor. The random token generator belongs to the ring library and is not part
  of the sources: it is the parameter \<open>GenerateTokens\<close>, called with the number of tokens
  requested and the tokens that are taken.
\<close>

type_synonym token = "32 word"

datatype InstanceState = ACTIVE | LEAVING | PENDING | JOINING | LEFT

definition ringNumTokens :: int where
  "ringNumTokens = 256"

type_synonym token_generator = "int \<Rightarrow> token list \<Rightarrow> token list"

definition OnRingInstanceRegister ::
  "token_generator \<Rightarrow> token list \<Rightarrow> bool \<Rightarrow> token list \<Rightarrow> InstanceState \<times> token list" where
  "OnRingInstanceRegister GenerateTokens ringTokens instanceExists instanceTokens =
     (let tokens = (if instanceExists then instanceTokens else []);
          takenTokens = ringTokens;
          newTokens = GenerateTokens (ringNumTokens - int (length tokens)) takenTokens
      in (ACTIVE, tokens @ newTokens))"

text \<open>
  The tokens the callback keeps, and what the specification asks of one call of the
  generator: it returns the requested number of tokens (none for a count that is not
  positive), pairwise distinct and none of them taken.
\<close>

definition existing_tokens :: "bool \<Rightarrow> token list \<Rightarrow> token list" where
  "existing_tokens instanceExists instanceTokens = (if instanceExists then instanceTokens else [])"

definition avoids_collisions :: "token_generator \<Rightarrow> int \<Rightarrow> token list \<Rightarrow> bool" where
  "avoids_collisions gen n taken =
     (length (gen n taken) = nat n \<and> distinct (gen n taken) \<and> set (gen n taken) \<inter> set taken = {})"

section \<open>Starting the generator\<close>


















fun sleeps :: "event list \<Rightarrow> nat list" where
  "sleeps [] = []"
| "sleeps (EvSleep d # evs) = d # sleeps evs"
| "sleeps (e # evs) = sleeps evs"


definition new_events :: "world \<Rightarrow> world \<Rightarrow> event list" where
  "new_events w w' = drop (length (trace w)) (trace w')"


section \<open>Stopping the generator\<close>













definition task_events :: "tenant \<Rightarrow> event list" where
  "task_events t = [EvGo t, EvInstanceShutdown t, EvShutdownReturned t, EvWgDone t]"

definition about :: "tenant \<Rightarrow> event \<Rightarrow> bool" where
  "about t e = (e \<in> set (task_events t))"






section \<open>Concrete inputs\<close>

text \<open>Small concrete configurations, environments and states on which the theorems are run.\<close>

definition no_overrides :: overrides where
  "no_overrides =
     \<lparr>MetricsGeneratorRemoteWriteHeaders = (\<lambda>_. Map.empty),
      MetricsGeneratorGenerateNativeHistograms = (\<lambda>_. ''classic''),
      HasNativeHistograms = (\<lambda>m. m = ''native'' \<or> m = ''both'')\<rparr>"

definition empty_world :: world where
  "empty_world = \<lparr>fs = {}, trace = [], update_failed = (\<lambda>_. 0), merged = {}\<rparr>"

definition ok_storage_env :: storage_env where
  "ok_storage_env =
     \<lparr>remove_result = Removed, mkdir_result = None, apply_result = None, open_result = None\<rparr>"

definition ok_close_env :: close_env where
  "ok_close_env = \<lparr>fanout_close_result = None, close_remove_result = Removed\<rparr>"

definition ok_create_env :: create_env where
  "ok_create_env =
     \<lparr>overrides_now = no_overrides, wal_env = ok_storage_env, traces_wal_result = None,
      traces_query_wal_result = None, new_instance_result = None, register_result = None,
      wal_close_env = ok_close_env\<rparr>"

definition ok_new_env :: new_env where
  "ok_new_env =
     \<lparr>validate_result = None, mkdir_root_result = None, kv_client_result = None,
      lifecycler_cfg_result = None, lifecycler_result = None\<rparr>"

definition unconfigured :: config where
  "unconfigured =
     \<lparr>Storage_Path = [], DisableGRPC = False, Ingest_Enabled = True,
      TracesWAL_Filepath = [], TracesQueryWAL_Filepath = []\<rparr>"

definition var_tempo :: config where
  "var_tempo =
     \<lparr>Storage_Path = ''/var/tempo'', DisableGRPC = False, Ingest_Enabled = True,
      TracesWAL_Filepath = ''/var/traces'', TracesQueryWAL_Filepath = []\<rparr>"

definition fresh_generator :: generator where
  "fresh_generator =
     \<lparr>cfg = var_tempo, readOnly = False, instances = Map.empty, ringLifecycler = True,
      subservices = False, kafkaClient = False, kafkaAdm = False, partitionClient = False\<rparr>"

definition no_answer :: "nat instance_query" where
  "no_answer inst req = (Inl (Err ''unused''), inst)"

definition tenant_storage :: storageImpl where
  "tenant_storage =
     \<lparr>walDir = ''/var/tempo/tenant-1'', tenantID = ''tenant-1'',
      currentHeaders = [''X-Scope'' \<mapsto> ''a''], sendNativeHistograms = False,
      remote_active = RemoteWriteConfigs ''tenant-1'' [''X-Scope'' \<mapsto> ''a''] False,
      closeCh_closed = False\<rparr>"

definition scope_overrides :: "string \<Rightarrow> overrides" where
  "scope_overrides v = no_overrides\<lparr>MetricsGeneratorRemoteWriteHeaders := (\<lambda>_. [''X-Scope'' \<mapsto> v])\<rparr>"

definition stale_storage :: storageImpl where
  "stale_storage =
     \<lparr>walDir = ''/var/tempo/tenant-1'', tenantID = ''tenant-1'',
      currentHeaders = [''X-A'' \<mapsto> []], sendNativeHistograms = False,
      remote_active = RemoteWriteConfigs ''tenant-1'' [''X-A'' \<mapsto> []] False,
      closeCh_closed = False\<rparr>"

definition renamed_header :: overrides where
  "renamed_header = no_overrides\<lparr>MetricsGeneratorRemoteWriteHeaders := (\<lambda>_. [''X-B'' \<mapsto> []])\<rparr>"




text \<open>
  A generator without randomness: the lowest tokens that are not taken. It meets
  \<open>avoids_collisions\<close> on every call that leaves enough room in the token space.
\<close>

definition lowest_free :: token_generator where
  "lowest_free n taken =
     take (nat n) (filter (\<lambda>c. c \<notin> set taken) (map word_of_nat [0..<nat n + length taken]))"

definition many_tokens :: "token list" where
  "many_tokens = map word_of_nat [0..<257]"







section \<open>Properties\<close>

subsection \<open>Construction without a storage path\<close>

text \<open>
  A generator that has been constructed has a storage path, so per-tenant storage is only
  ever constructed under a root that is not empty.
\<close>

lemma generator_New_has_path:
  "generator_New c env w = (Inr g, w') \<Longrightarrow> Storage_Path (cfg g) \<noteq> []"
  by (auto simp: generator_New_def Let_def split: if_splits option.splits)

text \<open>
  C8. When the configured storage path is the empty string, the generator's constructor
  returns the sentinel \<open>ErrUnconfigured\<close> and leaves the world as it found it: no directory
  is created or removed, nothing is validated, no ring client or lifecycler is built. This
  holds whatever the outcomes of the later steps would have been.
\<close>

theorem generator_New_unconfigured:
  "Storage_Path c = [] \<Longrightarrow> generator_New c env w = (Inl ErrUnconfigured, w)"
  by (simp add: generator_New_def)

theorem generator_New_unconfigured_witness:
  "Storage_Path unconfigured = []
   \<and> generator_New unconfigured ok_new_env empty_world = (Inl ErrUnconfigured, empty_world)"
  using generator_New_unconfigured [of unconfigured ok_new_env empty_world]
  by (simp add: unconfigured_def)

subsection \<open>Pushes after the generator is read-only\<close>

text \<open>
  C2. Once the read-only flag is set, \<open>PushSpans\<close> returns the sentinel \<open>ErrReadOnly\<close>,
  which differs from every other error value, and hands back the generator and the world
  unchanged: the registry holds the same instances with the same pushed requests, no
  storage or instance was created, and the trace has no new event. The result does not
  depend on the request, its tenant or the environment.
\<close>

theorem PushSpans_readOnly:
  "readOnly g \<Longrightarrow>
     PushSpans c req env g w = (Inl ErrReadOnly, g, w)
     \<and> ErrReadOnly \<notin> {ErrUnconfigured, ErrNoOrgID, ErrContext}
     \<and> ErrReadOnly \<notin> range Err \<union> range ErrTerminated \<union> range Multi \<union> range (\<lambda>(m, e). Wrap m e)"
  by (auto simp: PushSpans_def)

theorem PushSpans_readOnly_witness:
  "readOnly (stopIncomingRequests fresh_generator)
   \<and> PushSpans (Some ''tenant-1'') ''spans'' ok_create_env (stopIncomingRequests fresh_generator) empty_world
       = (Inl ErrReadOnly, stopIncomingRequests fresh_generator, empty_world)"
  using PushSpans_readOnly [of "stopIncomingRequests fresh_generator" "Some ''tenant-1''" "''spans''"
      ok_create_env empty_world]
  by (simp add: stopIncomingRequests_def)

subsection \<open>Queries for a tenant without an instance\<close>

text \<open>
  C9. For a request whose context carries tenant \<open>t\<close>, when the registry has no instance
  for \<open>t\<close>, \<open>GetMetrics\<close> and \<open>QueryRange\<close> both answer with the empty response and no
  error, and the generator is returned unchanged, so no instance was created.
\<close>

theorem queries_without_instance:
  "instances g t = None \<Longrightarrow>
     GetMetrics (Some t) req q g = (Inr [], g) \<and> QueryRange (Some t) req' q' g = (Inr [], g)"
  by (simp add: GetMetrics_def QueryRange_def ExtractOrgID_def getInstanceByID_def)

theorem queries_without_instance_witness:
  "instances fresh_generator ''tenant-1'' = None
   \<and> GetMetrics (Some ''tenant-1'') ''q'' no_answer fresh_generator = (Inr [], fresh_generator)
   \<and> QueryRange (Some ''tenant-1'') ''r'' no_answer fresh_generator = (Inr [], fresh_generator)"
  using queries_without_instance [of fresh_generator "''tenant-1''" "''q''" no_answer "''r''" no_answer]
  by (simp add: fresh_generator_def)

subsection \<open>The override watcher\<close>

text \<open>
  \<open>headersEqual\<close> holds of a map and itself. It is the equality of the two maps when the
  first holds no empty value; with empty values it also holds of maps that differ.
\<close>

lemma headersEqual_refl: "headersEqual h h"
  by (simp add: headersEqual_def)

lemma headersEqual_iff_eq:
  assumes "finite (dom b)" and "\<forall>k v. a k = Some v \<longrightarrow> v \<noteq> []"
  shows "headersEqual a b \<longleftrightarrow> a = b"
proof
  assume eq: "headersEqual a b"
  then have c: "card (dom a) = card (dom b)" and v: "\<forall>k \<in> dom a. index b k = index a k"
    by (auto simp: headersEqual_def split: if_splits)
  have sub: "\<And>k. k \<in> dom a \<Longrightarrow> b k = a k"
  proof -
    fix k assume k: "k \<in> dom a"
    then obtain x where x: "a k = Some x" by auto
    with assms have "x \<noteq> []" by blast
    moreover from v k have "index b k = index a k" by blast
    with x have "index b k = x" by (simp add: index_def)
    ultimately show "b k = a k" using x by (auto simp: index_def split: option.splits)
  qed
  then have "dom a \<subseteq> dom b" by (auto simp: dom_def) 
  with c assms(1) have d: "dom a = dom b" by (simp add: card_subset_eq)
  show "a = b"
  proof
    fix k show "a k = b k"
    proof (cases "k \<in> dom a")
      case True then show ?thesis using sub by simp
    next
      case False
      with d have "k \<notin> dom b" by simp
      with False show ?thesis by (simp add: domIff)
    qed
  qed
next
  assume "a = b" then show "headersEqual a b" by (simp add: headersEqual_refl)
qed

lemma watch_tick_tenantID: "tenantID (fst (watch_tick ov r sw)) = tenantID (fst sw)"
  by (simp add: watch_tick_def Let_def split: option.splits)

lemma watch_tick_noop:
  "polled ov (tenantID s) = (currentHeaders s, sendNativeHistograms s) \<Longrightarrow>
     watch_tick ov r (s, w) = (s, w)"
  by (simp add: watch_tick_def polled_def headersEqual_refl)

lemma watch_tick_cache:
  "\<not> headersEqual (currentHeaders s) (fst (polled ov (tenantID s)))
     \<or> sendNativeHistograms s \<noteq> snd (polled ov (tenantID s)) \<Longrightarrow>
   (currentHeaders (fst (watch_tick ov r (s, w))), sendNativeHistograms (fst (watch_tick ov r (s, w))))
     = polled ov (tenantID s)"
  by (auto simp add: watch_tick_def polled_def Let_def split: option.splits)

lemma watch_loop_same_polls:
  "polled ov (tenantID s) = (currentHeaders s, sendNativeHistograms s) \<Longrightarrow>
   list_all (same_poll (tenantID s) ov) cs \<Longrightarrow> watch_loop cs (s, w) = (False, s, w)"
proof (induction cs)
  case Nil then show ?case by simp
next
  case (Cons c cs)
  then show ?case by (cases c) (simp_all add: watch_tick_noop)
qed

text \<open>
  A poll whose values differ from the cached ones calls \<open>ApplyConfig\<close> once. When the call
  fails the active configuration stays, the tenant's failure counter goes up by one and a
  message is logged; the loop then takes its next case as after any other poll.
\<close>

lemma watch_tick_failure:
  assumes "\<not> headersEqual (currentHeaders s) (fst (polled ov (tenantID s)))
           \<or> sendNativeHistograms s \<noteq> snd (polled ov (tenantID s))"
  shows "remote_active (fst (watch_tick ov (Some e) (s, w))) = remote_active s"
    and "update_failed (snd (watch_tick ov (Some e) (s, w))) (tenantID s) = Suc (update_failed w (tenantID s))"
    and "trace (snd (watch_tick ov (Some e) (s, w))) =
           trace w @ [EvLog ''info'' ''updating remote write configuration'',
                      EvApplyConfig (RemoteWriteConfigs (tenantID s) (fst (polled ov (tenantID s)))
                                       (snd (polled ov (tenantID s)))),
                      EvLog ''info'' ''Failed to update remote write configuration. Remote write will continue with configuration'']"
    and "watch_loop (Tick ov (Some e) # cs) (s, w) = watch_loop cs (watch_tick ov (Some e) (s, w))"
  using assms by (auto simp: watch_tick_def polled_def emit_def Let_def)

lemma watch_tick_success:
  assumes "\<not> headersEqual (currentHeaders s) (fst (polled ov (tenantID s)))
           \<or> sendNativeHistograms s \<noteq> snd (polled ov (tenantID s))"
  shows "remote_active (fst (watch_tick ov None (s, w))) =
           RemoteWriteConfigs (tenantID s) (fst (polled ov (tenantID s))) (snd (polled ov (tenantID s)))"
    and "update_failed (snd (watch_tick ov None (s, w))) = update_failed w"
  using assms by (auto simp: watch_tick_def polled_def emit_def Let_def)

text \<open>
  C6. The watcher compares the polled headers with the cached ones through
  \<open>headersEqual\<close>, which reads a key that is missing from the polled map as the empty
  string. With cached headers \<open>{"X-A": ""}\<close> and polled headers \<open>{"X-B": ""}\<close> the header
  set has changed, yet the poll changes nothing: no \<open>ApplyConfig\<close> call, whatever its
  outcome would have been.
\<close>

theorem watch_tick_misses_renamed_header:
  "currentHeaders stale_storage \<noteq> MetricsGeneratorRemoteWriteHeaders renamed_header (tenantID stale_storage)
   \<and> watch_tick renamed_header r (stale_storage, w) = (stale_storage, w)"
proof -
  have "[''X-A'' \<mapsto> []] ''X-A'' \<noteq> [''X-B'' \<mapsto> ([]::string)] ''X-A''" by simp
  then have "[''X-A'' \<mapsto> ([]::string)] \<noteq> [''X-B'' \<mapsto> []]" by metis
  moreover have "watch_tick renamed_header r (stale_storage, w) = (stale_storage, w)"
    by (simp add: watch_tick_def stale_storage_def renamed_header_def no_overrides_def
          headersEqual_def index_def)
  ultimately show ?thesis
    by (simp add: stale_storage_def renamed_header_def no_overrides_def)
qed

theorem watch_tick_misses_renamed_header_witness:
  "currentHeaders stale_storage = [''X-A'' \<mapsto> []]
   \<and> MetricsGeneratorRemoteWriteHeaders renamed_header ''tenant-1'' = [''X-B'' \<mapsto> []]
   \<and> [''X-A'' \<mapsto> []] \<noteq> [''X-B'' \<mapsto> ([]::string)]
   \<and> \<not> headersEqual [''X-A'' \<mapsto> []] [''X-A'' \<mapsto> ''v'']
   \<and> watch_tick renamed_header None (stale_storage, empty_world) = (stale_storage, empty_world)
   \<and> watch_tick renamed_header (Some (Err ''refused'')) (stale_storage, empty_world)
       = (stale_storage, empty_world)"
  using watch_tick_misses_renamed_header [of None empty_world]
    watch_tick_misses_renamed_header [of "Some (Err ''refused'')" empty_world]
  by (simp add: stale_storage_def renamed_header_def no_overrides_def headersEqual_def index_def)

text \<open>
  C10. When a poll finds values that differ from the cache, the cache holds the polled
  values afterwards whatever the outcome of \<open>ApplyConfig\<close>. After a failed call the active
  configuration is still the old one, and any number of later polls that find the same
  values change nothing (no call, no log line, no counter change) and leave the task
  waiting; a later poll can only have an effect when its values differ from those of the
  failed attempt.
\<close>

theorem failed_reapply_not_retried:
  assumes "\<not> headersEqual (currentHeaders s) (fst (polled ov (tenantID s)))
           \<or> sendNativeHistograms s \<noteq> snd (polled ov (tenantID s))"
  shows "(currentHeaders (fst (watch_tick ov r (s, w))),
          sendNativeHistograms (fst (watch_tick ov r (s, w)))) = polled ov (tenantID s)
       \<and> remote_active (fst (watch_tick ov (Some e) (s, w))) = remote_active s
       \<and> (list_all (same_poll (tenantID s) ov) cs \<longrightarrow>
            watch_loop cs (watch_tick ov (Some e) (s, w)) = (False, watch_tick ov (Some e) (s, w)))
       \<and> (trace (snd (watch_tick ov' r' (watch_tick ov (Some e) (s, w))))
            \<noteq> trace (snd (watch_tick ov (Some e) (s, w))) \<longrightarrow>
            polled ov' (tenantID s) \<noteq> polled ov (tenantID s))"
proof -
  obtain s1 w1 where sw1: "watch_tick ov (Some e) (s, w) = (s1, w1)"
    by (cases "watch_tick ov (Some e) (s, w)")
  have cache: "(currentHeaders s1, sendNativeHistograms s1) = polled ov (tenantID s)"
    using watch_tick_cache [OF assms, of "Some e" w] sw1 by simp
  have tn: "tenantID s1 = tenantID s"
    using watch_tick_tenantID [of ov "Some e" "(s, w)"] sw1 by simp
  have active: "remote_active s1 = remote_active s"
    using sw1 by (auto simp: watch_tick_def Let_def split: if_splits)
  have loop: "watch_loop cs (s1, w1) = (False, s1, w1)"
    if "list_all (same_poll (tenantID s) ov) cs"
    using watch_loop_same_polls [of ov s1 cs w1] cache tn that by simp
  have retry: "polled ov' (tenantID s) \<noteq> polled ov (tenantID s)"
    if "trace (snd (watch_tick ov' r' (s1, w1))) \<noteq> trace w1"
  proof
    assume "polled ov' (tenantID s) = polled ov (tenantID s)"
    with cache tn have "watch_tick ov' r' (s1, w1) = (s1, w1)"
      by (simp add: watch_tick_noop)
    with that show False by simp
  qed
  show ?thesis
    using watch_tick_cache [OF assms, of r w] active loop retry sw1 by simp
qed


theorem failed_reapply_not_retried_witness:
  "\<not> headersEqual (currentHeaders tenant_storage) (fst (polled (scope_overrides ''b'') (tenantID tenant_storage)))
   \<and> list_all (same_poll (tenantID tenant_storage) (scope_overrides ''b''))
        [Tick (scope_overrides ''b'') None, Tick (scope_overrides ''b'') (Some (Err ''refused''))]
   \<and> currentHeaders (fst (watch_tick (scope_overrides ''b'') (Some (Err ''refused'')) (tenant_storage, empty_world)))
        = [''X-Scope'' \<mapsto> ''b'']
   \<and> remote_active (fst (watch_tick (scope_overrides ''b'') (Some (Err ''refused'')) (tenant_storage, empty_world)))
        = RemoteWriteConfigs ''tenant-1'' [''X-Scope'' \<mapsto> ''a''] False
   \<and> watch_loop [Tick (scope_overrides ''b'') None, Tick (scope_overrides ''b'') (Some (Err ''refused''))]
        (watch_tick (scope_overrides ''b'') (Some (Err ''refused'')) (tenant_storage, empty_world))
        = (False, watch_tick (scope_overrides ''b'') (Some (Err ''refused'')) (tenant_storage, empty_world))
   \<and> trace (snd (watch_tick (scope_overrides ''c'') None
                    (watch_tick (scope_overrides ''b'') (Some (Err ''refused'')) (tenant_storage, empty_world))))
        \<noteq> trace (snd (watch_tick (scope_overrides ''b'') (Some (Err ''refused'')) (tenant_storage, empty_world)))
   \<and> polled (scope_overrides ''c'') (tenantID tenant_storage) \<noteq> polled (scope_overrides ''b'') (tenantID tenant_storage)"
proof -
  have changed: "\<not> headersEqual (currentHeaders tenant_storage) (fst (polled (scope_overrides ''b'') (tenantID tenant_storage)))
      \<or> sendNativeHistograms tenant_storage \<noteq> snd (polled (scope_overrides ''b'') (tenantID tenant_storage))"
    by (simp add: tenant_storage_def scope_overrides_def no_overrides_def polled_def headersEqual_def index_def)
  have same: "list_all (same_poll (tenantID tenant_storage) (scope_overrides ''b''))
        [Tick (scope_overrides ''b'') None, Tick (scope_overrides ''b'') (Some (Err ''refused''))]"
    by simp
  have again: "trace (snd (watch_tick (scope_overrides ''c'') None
                    (watch_tick (scope_overrides ''b'') (Some (Err ''refused'')) (tenant_storage, empty_world))))
        \<noteq> trace (snd (watch_tick (scope_overrides ''b'') (Some (Err ''refused'')) (tenant_storage, empty_world)))"
    by (simp add: watch_tick_def tenant_storage_def scope_overrides_def no_overrides_def
          headersEqual_def index_def emit_def empty_world_def Let_def)
  show ?thesis
    using failed_reapply_not_retried [OF changed, of "Some (Err ''refused'')" empty_world "Err ''refused''"
        "[Tick (scope_overrides ''b'') None, Tick (scope_overrides ''b'') (Some (Err ''refused''))]"
        "scope_overrides ''c''" None]
      changed same again
    by (simp add: polled_def scope_overrides_def tenant_storage_def no_overrides_def)
qed

subsection \<open>Storage construction and close\<close>







lemma fs_emit [simp]: "fs (emit e w) = fs w"
  by (simp add: emit_def)

lemma trace_emit [simp]: "trace (emit e w) = trace w @ [e]"
  by (simp add: emit_def)

lemma fs_RemoveAll_Removed:
  "p \<noteq> [] \<Longrightarrow> fs (RemoveAll p Removed w) = {q \<in> fs w. \<not> inside p q}"
  by auto



lemma Close_result:
  "Close s cenv w1 =
     (NewMulti_Err [fanout_close_result cenv, remove_error (close_remove_result cenv)],
      s\<lparr>closeCh_closed := True\<rparr>,
      RemoveAll (walDir s) (close_remove_result cenv)
        (emit (EvStorageClose (tenantID s)) (emit (EvCloseCh (tenantID s)) (emit (EvLog ''info'' ''closing WAL'') w1))))"
  by (simp add: Close_def Let_def)







subsection \<open>Instance construction that fails\<close>

lemma first_error_Nil [simp]: "first_error [] = None"
  by (simp add: first_error_def List.map_filter_simps)

lemma first_error_Cons [simp]:
  "first_error (x # rs) = (case x of None \<Rightarrow> first_error rs | Some e \<Rightarrow> Some e)"
  by (cases x) (simp_all add: first_error_def List.map_filter_simps)


lemma merged_emit [simp]: "merged (emit e w) = merged w"
  by (simp add: emit_def)

lemma merged_RemoveAll [simp]: "merged (RemoveAll p r w) = merged w"
  by (cases r) simp_all

lemma merged_MkdirAll [simp]: "merged (MkdirAll p r w) = merged w"
  by (cases r) simp_all

lemma merged_Close [simp]: "merged (close_dropping_error s cenv w) = merged w"
  by (simp add: close_dropping_error_def Close_result)












subsection \<open>Registration in the ring\<close>

lemma distinct_word_of_nat_upt:
  assumes "m \<le> 2 ^ 32"
  shows "distinct (map word_of_nat [0..<m] :: token list)"
proof -
  have "inj_on (word_of_nat :: nat \<Rightarrow> token) {0..<m}"
  proof (rule inj_onI)
    fix x y assume x: "x \<in> {0..<m}" and y: "y \<in> {0..<m}"
      and eq: "(word_of_nat x :: token) = word_of_nat y"
    from eq have "unat (word_of_nat x :: token) = unat (word_of_nat y :: token)" by simp
    moreover from x assms have "x < 2 ^ 32" by simp
    moreover from y assms have "y < 2 ^ 32" by simp
    ultimately show "x = y" by (simp add: unat_of_nat)
  qed
  then show ?thesis by (simp add: distinct_map)
qed

lemma lowest_free_avoids_collisions:
  assumes "nat n + length taken \<le> 2 ^ 32"
  shows "avoids_collisions lowest_free n taken"
proof -
  let ?cs = "map word_of_nat [0..<nat n + length taken] :: token list"
  let ?free = "filter (\<lambda>c. c \<notin> set taken) ?cs"
  let ?used = "filter (\<lambda>c. c \<in> set taken) ?cs"
  have dc: "distinct ?cs" using assms by (rule distinct_word_of_nat_upt)
  then have "distinct ?used" by simp
  then have "length ?used = card (set ?used)" by (rule distinct_card [symmetric])
  also have "\<dots> \<le> card (set taken)" by (rule card_mono) auto
  also have "\<dots> \<le> length taken" by (rule card_length)
  finally have used: "length ?used \<le> length taken" .
  have "length ?used + length ?free = length ?cs"
    using sum_length_filter_compl [of "\<lambda>c. c \<in> set taken" ?cs] by simp
  with used have "nat n \<le> length ?free" by simp
  then have len: "length (lowest_free n taken) = nat n"
    by (simp add: lowest_free_def)
  have "distinct ?free" using dc by simp
  then have dis: "distinct (lowest_free n taken)"
    unfolding lowest_free_def by (rule distinct_take)
  have "set (lowest_free n taken) \<subseteq> set ?free"
    unfolding lowest_free_def by (rule set_take_subset)
  then have "set (lowest_free n taken) \<inter> set taken = {}" by auto
  with len dis show ?thesis by (simp add: avoids_collisions_def)
qed

text \<open>
  C3, as the code has it. Let \<open>T\<close> be the tokens the callback keeps (those of the
  descriptor when the instance exists, none otherwise) and \<open>S\<close> the taken tokens, and let
  the generator meet \<open>avoids_collisions\<close> on the call. The state returned is \<open>ACTIVE\<close> and
  the tokens returned are \<open>T\<close> followed by the generated ones: they include \<open>T\<close> and share
  nothing with \<open>S - T\<close>. When \<open>T\<close> has at most 256 tokens, \<open>256 - |T|\<close> tokens are generated
  and 256 are returned; they are 256 different tokens when \<open>T\<close> is free of duplicates and
  part of \<open>S\<close>. When \<open>T\<close> has more than 256 tokens, nothing is generated and \<open>T\<close> is returned.
\<close>

theorem OnRingInstanceRegister_tops_up:
  assumes "avoids_collisions gen (ringNumTokens - int (length (existing_tokens ex its))) S"
  shows "fst (OnRingInstanceRegister gen S ex its) = ACTIVE
     \<and> snd (OnRingInstanceRegister gen S ex its)
         = existing_tokens ex its @ gen (ringNumTokens - int (length (existing_tokens ex its))) S
     \<and> set (existing_tokens ex its) \<subseteq> set (snd (OnRingInstanceRegister gen S ex its))
     \<and> set (snd (OnRingInstanceRegister gen S ex its)) \<inter> (set S - set (existing_tokens ex its)) = {}
     \<and> (length (existing_tokens ex its) \<le> 256 \<longrightarrow>
          length (snd (OnRingInstanceRegister gen S ex its)) = 256
          \<and> length (gen (ringNumTokens - int (length (existing_tokens ex its))) S)
              = 256 - length (existing_tokens ex its))
     \<and> (length (existing_tokens ex its) \<le> 256 \<and> distinct (existing_tokens ex its)
          \<and> set (existing_tokens ex its) \<subseteq> set S \<longrightarrow>
          card (set (snd (OnRingInstanceRegister gen S ex its))) = 256)
     \<and> (256 < length (existing_tokens ex its) \<longrightarrow>
          snd (OnRingInstanceRegister gen S ex its) = existing_tokens ex its)"
proof -
  let ?T = "existing_tokens ex its"
  let ?new = "gen (ringNumTokens - int (length ?T)) S"
  have res: "OnRingInstanceRegister gen S ex its = (ACTIVE, ?T @ ?new)"
    by (simp add: OnRingInstanceRegister_def existing_tokens_def)
  from assms have len: "length ?new = nat (256 - int (length ?T))"
    and dis: "distinct ?new" and av: "set ?new \<inter> set S = {}"
    by (simp_all add: avoids_collisions_def ringNumTokens_def)
  have a: "set (?T @ ?new) \<inter> (set S - set ?T) = {}" using av by auto
  have b: "length (?T @ ?new) = 256 \<and> length ?new = 256 - length ?T" if "length ?T \<le> 256"
  proof -
    have "nat (256 - int (length ?T)) = 256 - length ?T" by linarith
    with len that show ?thesis by simp
  qed
  have c: "card (set (?T @ ?new)) = 256"
    if "length ?T \<le> 256" "distinct ?T" "set ?T \<subseteq> set S"
  proof -
    from that(3) av have "set ?T \<inter> set ?new = {}" by auto
    with that(2) dis have "distinct (?T @ ?new)" by simp
    then have "card (set (?T @ ?new)) = length (?T @ ?new)" by (rule distinct_card)
    with b that(1) show ?thesis by simp
  qed
  have d: "?T @ ?new = ?T" if "256 < length ?T"
  proof -
    from that have "nat (256 - int (length ?T)) = 0" by linarith
    with len show ?thesis by simp
  qed
  show ?thesis
    unfolding res using a b c d by simp
qed

theorem OnRingInstanceRegister_tops_up_witness:
  "avoids_collisions lowest_free (ringNumTokens - int (length (existing_tokens True [7, 8, 9]))) [7, 8, 9, 10]
   \<and> length (existing_tokens True [7, 8, 9]) \<le> 256
   \<and> distinct (existing_tokens True [7, 8, 9])
   \<and> set (existing_tokens True [7, 8, 9]) \<subseteq> set [7, 8, 9, 10 :: token]
   \<and> fst (OnRingInstanceRegister lowest_free [7, 8, 9, 10] True [7, 8, 9]) = ACTIVE
   \<and> take 3 (snd (OnRingInstanceRegister lowest_free [7, 8, 9, 10] True [7, 8, 9])) = [7, 8, 9]
   \<and> 10 \<notin> set (snd (OnRingInstanceRegister lowest_free [7, 8, 9, 10] True [7, 8, 9]))
   \<and> length (snd (OnRingInstanceRegister lowest_free [7, 8, 9, 10] True [7, 8, 9])) = 256
   \<and> card (set (snd (OnRingInstanceRegister lowest_free [7, 8, 9, 10] True [7, 8, 9]))) = 256"
proof -
  have T: "existing_tokens True [7, 8, 9] = [7, 8, 9]"
    by (simp add: existing_tokens_def)
  have av: "avoids_collisions lowest_free (ringNumTokens - int (length (existing_tokens True [7, 8, 9]))) [7, 8, 9, 10]"
    by (rule lowest_free_avoids_collisions) (simp add: T ringNumTokens_def)
  have le: "length (existing_tokens True [7, 8, 9]) \<le> 256" by (simp add: T)
  have di: "distinct (existing_tokens True [7, 8, 9 :: token])" by (simp add: T)
  have su: "set (existing_tokens True [7, 8, 9]) \<subseteq> set [7, 8, 9, 10 :: token]" by (simp add: T)
  note R = OnRingInstanceRegister_tops_up [OF av]
  have r1: "fst (OnRingInstanceRegister lowest_free [7, 8, 9, 10] True [7, 8, 9]) = ACTIVE"
    using R by (rule conjunct1)
  have r2: "take 3 (snd (OnRingInstanceRegister lowest_free [7, 8, 9, 10] True [7, 8, 9])) = [7, 8, 9]"
    using R [THEN conjunct2, THEN conjunct1] by (simp add: T)
  have "set (snd (OnRingInstanceRegister lowest_free [7, 8, 9, 10] True [7, 8, 9]))
          \<inter> (set [7, 8, 9, 10] - set (existing_tokens True [7, 8, 9])) = {}"
    using R by blast
  then have r3: "10 \<notin> set (snd (OnRingInstanceRegister lowest_free [7, 8, 9, 10] True [7, 8, 9]))"
    unfolding T by auto
  have r4: "length (snd (OnRingInstanceRegister lowest_free [7, 8, 9, 10] True [7, 8, 9])) = 256"
    using R le by blast
  have r5: "card (set (snd (OnRingInstanceRegister lowest_free [7, 8, 9, 10] True [7, 8, 9]))) = 256"
    using R le di su by blast
  from av le di su r1 r2 r3 r4 r5 show ?thesis by (intro conjI)
qed

text \<open>
  C3 as stated fails for an instance that is registered with more than 256 tokens:
  all 257 are kept.
\<close>

theorem OnRingInstanceRegister_size_counterexample:
  "avoids_collisions lowest_free (ringNumTokens - int (length many_tokens)) many_tokens
   \<and> distinct many_tokens
   \<and> fst (OnRingInstanceRegister lowest_free many_tokens True many_tokens) = ACTIVE
   \<and> length (snd (OnRingInstanceRegister lowest_free many_tokens True many_tokens)) = 257
   \<and> card (set (snd (OnRingInstanceRegister lowest_free many_tokens True many_tokens))) = 257"
proof -
  have d: "distinct many_tokens"
    unfolding many_tokens_def by (rule distinct_word_of_nat_upt) simp
  have l: "length many_tokens = 257" by (simp add: many_tokens_def)
  have g: "lowest_free (- 1) many_tokens = []"
    by (simp add: lowest_free_def)
  have n: "ringNumTokens - int (length many_tokens) = - 1"
    by (simp add: l ringNumTokens_def)
  have r: "OnRingInstanceRegister lowest_free many_tokens True many_tokens = (ACTIVE, many_tokens)"
    by (simp add: OnRingInstanceRegister_def n g)
  have "avoids_collisions lowest_free (ringNumTokens - int (length many_tokens)) many_tokens"
    by (simp add: avoids_collisions_def n g)
  then show ?thesis
    using d l by (simp add: r distinct_card)
qed

subsection \<open>The connectivity probe of \<open>starting\<close>\<close>

lemma sleeps_append [simp]: "sleeps (xs @ ys) = sleeps xs @ sleeps ys"
  by (induction xs rule: sleeps.induct) simp_all






lemma new_events_append [simp]: "new_events w (w\<lparr>trace := trace w @ evs\<rparr>) = evs"
  by (simp add: new_events_def)

lemma world_trace_same [simp]: "w\<lparr>trace := trace w\<rparr> = (w::world)"
  by simp












subsection \<open>The order of \<open>stopping\<close>\<close>

lemma about_simps [simp]:
  "about t (EvGo u) = (u = t)" "about t (EvInstanceShutdown u) = (u = t)"
  "about t (EvShutdownReturned u) = (u = t)" "about t (EvWgDone u) = (u = t)"
  "\<not> about t EvWgWaitReturned"
  by (auto simp: about_def task_events_def)



lemma instances_stopIncomingRequests [simp]:
  "instances (stopIncomingRequests g) = instances g"
  "cfg (stopIncomingRequests g) = cfg g"
  "subservices (stopIncomingRequests g) = subservices g"
  by (simp_all add: stopIncomingRequests_def)













end
